theory Spec2Isabelle
  imports Complex_Main "HOL-Library.Word" "HOL-Library.AList"
begin

section \<open>The DL1 event source of ctapipe (src/ctapipe/io/dl1eventsource.py)\<close>

text \<open>
  The development embeds \<^verbatim>\<open>DL1EventSource\<close>: the compatibility probe, the schema
  properties, the run-header registry, the pointing lookup and the event generator.
  Exceptions are values of the type \<open>error\<close>; a function that can raise returns
  \<open>error + 'a\<close> with \<open>Inl\<close> for the exception. Time stamps are floating-point numbers in
  the file; they are modelled as reals, so rounding is left out.
\<close>

subsection \<open>Exceptions\<close>

text \<open>
  \<open>StopIteration\<close> is what \<^verbatim>\<open>next\<close> raises on an exhausted reader or row iterator (inside
  the generator body it reaches the consumer as a RuntimeError from Python 3.7 on),
  \<open>NoSuchNodeError\<close> is what the HDF5 library raises for a child node that does not exist,
  \<open>HDF5ExtError\<close> what it raises for a file it cannot open, \<open>ValueError\<close> what
  \<^verbatim>\<open>np.argmin\<close> raises on an empty column.
\<close>

datatype error =
    KeyError
  | TypeError
  | ValueError
  | StopIteration
  | NoSuchNodeError
  | HDF5ExtError

subsection \<open>The compatibility probe\<close>

text \<open>
  A file on disk, as far as \<^verbatim>\<open>is_compatible\<close> reads it: its bytes, and the attributes of
  the root node when the HDF5 library can open it (\<open>None\<close> otherwise).
\<close>

record raw_file =
  file_bytes :: "8 word list"
  root_attrs :: "(string \<rightharpoonup> string) option"

definition hdf5_signature :: "8 word list" where
  "hdf5_signature = [0x89, 0x48, 0x44, 0x46, 0x0D, 0x0A, 0x1A, 0x0A]"

text \<open>
  \<^verbatim>\<open>metadata[name]\<close> on the attribute set raises KeyError for a name that is not there.
\<close>

definition attr_getitem :: "(string \<rightharpoonup> string) \<Rightarrow> string \<Rightarrow> error + string" where
  "attr_getitem metadata name =
     (case metadata name of None \<Rightarrow> Inl KeyError | Some v \<Rightarrow> Inr v)"

definition is_compatible :: "raw_file \<Rightarrow> error + bool" where
  "is_compatible file =
     (let magic_number = take 8 (file_bytes file) in
      if magic_number \<noteq> hdf5_signature then Inr False
      else
        (case root_attrs file of
           None \<Rightarrow> Inl HDF5ExtError
         | Some metadata \<Rightarrow>
             if ''CTA PRODUCT DESCRIPTION'' \<notin> dom metadata then Inr False
             else
               (case attr_getitem metadata ''CTA PRODUCT DESCRIPTION'' of
                  Inl e \<Rightarrow> Inl e
                | Inr description \<Rightarrow>
                    if description \<noteq> ''DL1 Data Product'' then Inr False
                    else
                      (case attr_getitem metadata ''CTA PRODUCT DATA MODEL VERSION'' of
                         Inl e \<Rightarrow> Inl e
                       | Inr version \<Rightarrow>
                           if version \<noteq> ''v1.0.0'' then Inr False else Inr True))))"

subsection \<open>Nearest-row lookup in a monitoring table\<close>

text \<open>
  \<^verbatim>\<open>np.argmin\<close> returns the index of the first occurrence of the least element and raises
  ValueError on an empty array. \<open>argmin_from xs i best_i best\<close> scans the rest \<open>xs\<close> of
  the array, whose first element has index \<open>i\<close>, with the least element so far and its
  index.
\<close>

fun argmin_from :: "real list \<Rightarrow> nat \<Rightarrow> nat \<Rightarrow> real \<Rightarrow> nat" where
  "argmin_from [] i best_i best = best_i"
| "argmin_from (x # xs) i best_i best =
     (if x < best then argmin_from xs (Suc i) i x
      else argmin_from xs (Suc i) best_i best)"

definition np_argmin :: "real list \<Rightarrow> error + nat" where
  "np_argmin xs =
     (case xs of [] \<Rightarrow> Inl ValueError | x # rest \<Rightarrow> Inr (argmin_from rest 1 0 x))"

text \<open>
  The expression of both pointing functions:
  \<^verbatim>\<open>closest_time = np.argmin(table.col("time") - trigger_time)\<close>.
  The column minus the scalar is the element-wise difference.
\<close>

definition closest_time :: "real list \<Rightarrow> real \<Rightarrow> error + nat" where
  "closest_time col trigger_time = np_argmin (map (\<lambda>t. t - trigger_time) col)"

text \<open>A row of \<^verbatim>\<open>/dl1/monitoring/subarray/pointing\<close>.\<close>

record array_pointing_row =
  ap_time :: real
  array_azimuth :: real
  array_altitude :: real
  array_ra :: real
  array_dec :: real

text \<open>
  \<^verbatim>\<open>_fill_array_pointing\<close>: the row at the index \<open>closest_time\<close>; its four fields are
  what the event's pointing container receives (the unit tag \<^verbatim>\<open>u.rad\<close> changes no value).
\<close>

definition fill_array_pointing ::
  "array_pointing_row list \<Rightarrow> real \<Rightarrow> error + array_pointing_row" where
  "fill_array_pointing pointing trigger_time =
     (case closest_time (map ap_time pointing) trigger_time of
        Inl e \<Rightarrow> Inl e
      | Inr i \<Rightarrow> Inr (pointing ! i))"

text \<open>A row of \<^verbatim>\<open>/dl1/monitoring/telescope/pointing/tel_NNN\<close>.\<close>

record tel_pointing_row =
  telescopetrigger_time :: real
  azimuth :: real
  altitude :: real


subsection \<open>The file\<close>

text \<open>
  Column values that the reader only copies (pixel arrays, parameter containers, shower
  and run-header records) are lists of numbers. Telescope, observation and event ids are
  natural numbers.
\<close>

type_synonym payload = "real list"

text \<open>A row of \<^verbatim>\<open>/dl1/event/subarray/trigger\<close>, read into the trigger and index containers.\<close>

record trigger_row =
  tr_obs_id :: nat
  tr_event_id :: nat
  tr_time :: real
  tr_tels_with_trigger :: "bool list"

text \<open>A row of \<^verbatim>\<open>/dl1/event/telescope/trigger\<close>.\<close>

record tel_trigger_row =
  tt_obs_id :: nat
  tt_event_id :: nat
  tt_tel_id :: nat
  tt_telescopetrigger_time :: real

text \<open>A row of \<^verbatim>\<open>/dl1/event/telescope/images/tel_NNN\<close>.\<close>

record image_row =
  ir_image :: payload
  ir_peak_time :: payload
  ir_image_mask :: "bool list"

text \<open>
  A row of \<^verbatim>\<open>/dl1/event/telescope/parameters/tel_NNN\<close>, as the reader returns it: the
  seven containers \<^verbatim>\<open>params[0]\<close> to \<^verbatim>\<open>params[6]\<close>.
\<close>

record param_row =
  pr_hillas :: payload
  pr_timing :: payload
  pr_leakage :: payload
  pr_concentration :: payload
  pr_morphology :: payload
  pr_intensity_statistics :: payload
  pr_peak_time_statistics :: payload

text \<open>A row of \<^verbatim>\<open>/configuration/simulation/run\<close>: its obs\_id and the decoded header.\<close>

record run_row =
  run_obs_id :: nat
  run_header :: payload

text \<open>
  The group \<^verbatim>\<open>/simulation\<close>: the shower table, and the names of the true-image tables
  under \<^verbatim>\<open>simulation/event/telescope/images\<close>. For \<open>sim_telescope\<close>, \<open>None\<close> means that
  \<^verbatim>\<open>simulation/event\<close> has no child \<^verbatim>\<open>telescope\<close>, and \<open>Some None\<close> that the child has
  no \<^verbatim>\<open>images\<close> group.
\<close>

record simulation_group =
  sim_shower :: "payload list"
  sim_telescope :: "string list option option"

text \<open>
  The open file. An optional group is \<open>None\<close> when it is absent; a group of per-telescope
  tables is a map from the table name to its rows. The nodes every DL1 file has (the two
  trigger tables, the array pointing table, the group of telescope pointing tables) are
  taken to exist. \<open>process_type\<close> is the root attribute \<^verbatim>\<open>CTA PROCESS TYPE\<close>.
\<close>

record h5file =
  process_type :: "string option"
  simulation :: "simulation_group option"
  configuration_simulation_run :: "run_row list option"
  subarray_trigger :: "trigger_row list"
  telescope_trigger :: "tel_trigger_row list"
  telescope_images :: "(string \<rightharpoonup> image_row list) option"
  telescope_parameters :: "(string \<rightharpoonup> param_row list) option"
  subarray_pointing :: "array_pointing_row list"
  telescope_pointing :: "string \<rightharpoonup> tel_pointing_row list"

subsection \<open>Schema properties\<close>

datatype datalevel = DL1_IMAGES | DL1_PARAMETERS

definition is_simulation :: "h5file \<Rightarrow> bool" where
  "is_simulation f = (simulation f \<noteq> None)"

definition has_simulated_dl1 :: "h5file \<Rightarrow> bool" where
  "has_simulated_dl1 f =
     (case simulation f of
        None \<Rightarrow> False
      | Some sim \<Rightarrow> (case sim_telescope sim of None \<Rightarrow> False | Some _ \<Rightarrow> True))"

text \<open>
  \<^verbatim>\<open>datalevels\<close>: the property has no \<^verbatim>\<open>else\<close> branch, so with neither group it returns
  Python's \<^verbatim>\<open>None\<close>, here \<open>None\<close>.
\<close>

definition datalevels :: "h5file \<Rightarrow> datalevel list option" where
  "datalevels f =
     (let params = (telescope_parameters f \<noteq> None);
          images = (telescope_images f \<noteq> None)
      in if params \<and> images then Some [DL1_IMAGES, DL1_PARAMETERS]
         else if params then Some [DL1_PARAMETERS]
         else if images then Some [DL1_IMAGES]
         else None)"

text \<open>\<^verbatim>\<open>__len__\<close>: the number of rows of the array trigger table.\<close>

definition len :: "h5file \<Rightarrow> nat" where
  "len f = length (subarray_trigger f)"

subsection \<open>The run-header registry\<close>

text \<open>
  \<^verbatim>\<open>_parse_mc_headers\<close>: one pass over the rows of the run table in file order; the
  reader runs over the same table in step with the row iterator, so \<^verbatim>\<open>next(reader)\<close> is
  the header decoded from the current row (the reader is not among the sources; the
  specification describes it as yielding one record per call in iteration order).
\<close>

definition parse_mc_headers :: "h5file \<Rightarrow> (nat \<rightharpoonup> payload)" where
  "parse_mc_headers f =
     (case configuration_simulation_run f of
        None \<Rightarrow> Map.empty
      | Some rows \<Rightarrow> foldl (\<lambda>mc_headers row. mc_headers(run_obs_id row \<mapsto> run_header row))
                      Map.empty rows)"

text \<open>
  The source object after \<^verbatim>\<open>__init__\<close>; \<open>src_file\<close> is \<^verbatim>\<open>self.file_\<close>. \<open>allowed_tels\<close> comes from the base class: a set
  of telescope ids, empty when none is configured (an empty set is false in a condition).
\<close>

record dl1_event_source =
  src_file :: h5file
  allowed_tels :: "nat set"
  mc_headers :: "nat \<rightharpoonup> payload"

definition init_source :: "h5file \<Rightarrow> nat set \<Rightarrow> dl1_event_source" where
  "init_source f allowed =
     \<lparr>src_file = f, allowed_tels = allowed, mc_headers = parse_mc_headers f\<rparr>"

text \<open>
  The guard of the three telescope loops:
  \<^verbatim>\<open>if self.allowed_tels and tel not in self.allowed_tels: continue\<close>.
\<close>

definition not_allowed :: "dl1_event_source \<Rightarrow> nat \<Rightarrow> bool" where
  "not_allowed src tel = (allowed_tels src \<noteq> {} \<and> tel \<notin> allowed_tels src)"

subsection \<open>Table names\<close>

text \<open>
  \<^verbatim>\<open>f"tel_{tel:03d}"\<close>: the decimal digits of the id, padded with zeros on the left to
  three characters.
\<close>

fun decimal :: "nat \<Rightarrow> string" where
  "decimal n =
     (if n < 10 then [''0123456789'' ! n]
      else decimal (n div 10) @ [''0123456789'' ! (n mod 10)])"

declare decimal.simps [simp del]

definition tel_name :: "nat \<Rightarrow> string" where
  "tel_name tel =
     (let s = decimal tel in ''tel_'' @ replicate (3 - length s) (CHR ''0'') @ s)"


subsection \<open>The event container\<close>

text \<open>
  The container classes are not among the sources. The per-telescope maps of the
  container (\<^verbatim>\<open>data.trigger.tel\<close>, \<^verbatim>\<open>data.pointing.tel\<close>, \<^verbatim>\<open>data.dl1.tel\<close>) are
  dictionaries that create a default entry when a missing key is read: the source assigns \<^verbatim>\<open>data.trigger.tel[tel_id].time\<close> and
  \<^verbatim>\<open>data.pointing.tel[tel].azimuth\<close> right after clearing these maps, which only such a
  dictionary allows. They keep insertion order, which the loops over
  \<^verbatim>\<open>data.trigger.tel.keys()\<close> follow, so they are association lists: \<open>AList.update\<close>
  replaces the value of a key in place and appends a new key at the end.
\<close>

definition map_getitem :: "'v \<Rightarrow> (nat \<times> 'v) list \<Rightarrow> nat \<Rightarrow> 'v \<times> (nat \<times> 'v) list" where
  "map_getitem dflt m k =
     (case map_of m k of
        Some v \<Rightarrow> (v, m)
      | None \<Rightarrow> (dflt, m @ [(k, dflt)]))"

record telescope_pointing_container =
  tp_azimuth :: real
  tp_altitude :: real

text \<open>
  The DL1 camera container of one telescope. A field that was never assigned is \<open>None\<close>.
  The seven parameter containers are assigned together from one row, so they are one
  field.
\<close>

record dl1_camera_container =
  image :: "payload option"
  peak_time :: "payload option"
  image_mask :: "bool list option"
  parameters :: "param_row option"

definition default_dl1 :: dl1_camera_container where
  "default_dl1 = \<lparr>image = None, peak_time = None, image_mask = None, parameters = None\<rparr>"

text \<open>The container as the consumer sees it at a \<^verbatim>\<open>yield\<close>.\<close>

record event =
  meta_origin :: string
  count :: nat
  trigger_time :: real
  tels_with_trigger :: "nat list"
  trigger_tel :: "(nat \<times> real) list"
  index_obs_id :: nat
  index_event_id :: nat
  pointing_array :: array_pointing_row
  pointing_tel :: "(nat \<times> telescope_pointing_container) list"
  mc :: "payload option"
  mcheader :: "payload option"
  dl1_tel :: "(nat \<times> dl1_camera_container) list"

subsection \<open>The steps of one event\<close>

text \<open>
  \<^verbatim>\<open>np.where(bitmap)[0] + 1\<close>: the positions of the set entries of the bitmap, plus one.
\<close>

definition where_plus_one :: "bool list \<Rightarrow> nat list" where
  "where_plus_one bitmap = map Suc (filter (\<lambda>i. bitmap ! i) [0 ..< length bitmap])"

text \<open>
  The loop over the rows of the telescope trigger table that match the event's obs\_id
  and event\_id, in table order.
\<close>

fun fill_trigger_tel ::
  "dl1_event_source \<Rightarrow> tel_trigger_row list \<Rightarrow> (nat \<times> real) list \<Rightarrow> (nat \<times> real) list" where
  "fill_trigger_tel src [] tel = tel"
| "fill_trigger_tel src (i # rows) tel =
     (if not_allowed src (tt_tel_id i) then fill_trigger_tel src rows tel
      else fill_trigger_tel src rows
             (AList.update (tt_tel_id i) (tt_telescopetrigger_time i) tel))"

definition matching_rows :: "h5file \<Rightarrow> nat \<Rightarrow> nat \<Rightarrow> tel_trigger_row list" where
  "matching_rows f obs_id event_id =
     filter (\<lambda>i. tt_obs_id i = obs_id \<and> tt_event_id i = event_id) (telescope_trigger f)"

text \<open>
  \<^verbatim>\<open>_fill_telescope_pointing\<close>: the loop over the entries of \<^verbatim>\<open>data.trigger.tel\<close> (its
  keys are distinct, so the time of an entry is \<^verbatim>\<open>data.trigger.tel[tel].time\<close>). Reading
  a table that the pointing group does not have raises \<open>NoSuchNodeError\<close>.
\<close>

fun fill_telescope_pointing ::
  "dl1_event_source \<Rightarrow> (nat \<times> real) list \<Rightarrow> (nat \<times> telescope_pointing_container) list \<Rightarrow>
   error + (nat \<times> telescope_pointing_container) list" where
  "fill_telescope_pointing src [] ptel = Inr ptel"
| "fill_telescope_pointing src ((tel, time) # rest) ptel =
     (if not_allowed src tel then fill_telescope_pointing src rest ptel
      else
        (case telescope_pointing (src_file src) (tel_name tel) of
           None \<Rightarrow> Inl NoSuchNodeError
         | Some tel_pointing_table \<Rightarrow>
             (case closest_time (map telescopetrigger_time tel_pointing_table) time of
                Inl e \<Rightarrow> Inl e
              | Inr i \<Rightarrow>
                  (let pointing_row = tel_pointing_table ! i in
                   fill_telescope_pointing src rest
                     (AList.update tel
                        \<lparr>tp_azimuth = azimuth pointing_row,
                         tp_altitude = altitude pointing_row\<rparr> ptel)))))"

text \<open>
  The cursors that live across events: one row iterator per image table, one reader per
  parameter table, the shower reader; and the debug messages logged so far.
\<close>

datatype diagnostic = Missing_from_image_table nat | Missing_from_parameters_table nat

record cursors =
  image_iterators :: "string \<rightharpoonup> image_row list"
  param_readers :: "string \<rightharpoonup> param_row list"
  mc_shower_reader :: "payload list"
  log :: "diagnostic list"

type_synonym dl1_state = "cursors \<times> (nat \<times> dl1_camera_container) list"

text \<open>
  The second half of the body of the telescope loop, from
  \<^verbatim>\<open>if DataLevel.DL1_PARAMETERS in self.datalevels\<close> on.
\<close>

definition fill_parameters :: "datalevel list \<Rightarrow> nat \<Rightarrow> dl1_state \<Rightarrow> error + dl1_state" where
  "fill_parameters lv tel s =
     (let (cur, d) = s in
      if DL1_PARAMETERS \<in> set lv then
        (case param_readers cur (tel_name tel) of
           None \<Rightarrow> Inr (cur\<lparr>log := log cur @ [Missing_from_parameters_table tel]\<rparr>, d)
         | Some [] \<Rightarrow> Inl StopIteration
         | Some (params # rest) \<Rightarrow>
             Inr (cur\<lparr>param_readers := (param_readers cur)(tel_name tel \<mapsto> rest)\<rparr>,
                  AList.map_entry tel (\<lambda>dl1. dl1\<lparr>parameters := Some params\<rparr>) d))
      else Inr (cur, d))"

text \<open>
  The body of the telescope loop for a telescope that passed the allow-list guard.
  \<^verbatim>\<open>dl1 = data.dl1.tel[tel]\<close> comes first and creates the entry; the \<^verbatim>\<open>continue\<close> of the
  image branch ends the body, so the parameter branch is not reached.
\<close>

definition fill_dl1_tel :: "datalevel list \<Rightarrow> nat \<Rightarrow> dl1_state \<Rightarrow> error + dl1_state" where
  "fill_dl1_tel lv tel s =
     (let (cur, d0) = s;
          (dl1, d) = map_getitem default_dl1 d0 tel
      in if DL1_IMAGES \<in> set lv then
           (case image_iterators cur (tel_name tel) of
              None \<Rightarrow> Inr (cur\<lparr>log := log cur @ [Missing_from_image_table tel]\<rparr>, d)
            | Some [] \<Rightarrow> Inl StopIteration
            | Some (image_row # rest) \<Rightarrow>
                fill_parameters lv tel
                  (cur\<lparr>image_iterators := (image_iterators cur)(tel_name tel \<mapsto> rest)\<rparr>,
                   AList.map_entry tel
                     (\<lambda>dl1. dl1\<lparr>image := Some (ir_image image_row),
                                peak_time := Some (ir_peak_time image_row),
                                image_mask := Some (ir_image_mask image_row)\<rparr>) d))
         else fill_parameters lv tel (cur, d))"

text \<open>The telescope loop \<^verbatim>\<open>for tel in data.trigger.tel.keys()\<close>.\<close>

fun fill_dl1 ::
  "dl1_event_source \<Rightarrow> datalevel list \<Rightarrow> nat list \<Rightarrow> dl1_state \<Rightarrow> error + dl1_state" where
  "fill_dl1 src lv [] s = Inr s"
| "fill_dl1 src lv (tel # tels) s =
     (if not_allowed src tel then fill_dl1 src lv tels s
      else
        (case fill_dl1_tel lv tel s of
           Inl e \<Rightarrow> Inl e
         | Inr s' \<Rightarrow> fill_dl1 src lv tels s'))"

text \<open>
  The simulation branch: \<^verbatim>\<open>data.mc = next(mc_shower_reader)\<close>, then
  \<^verbatim>\<open>data.mcheader = self._mc_headers[data.index.obs_id]\<close>, a plain dictionary lookup.
\<close>

definition fill_simulation ::
  "dl1_event_source \<Rightarrow> nat \<Rightarrow> cursors \<Rightarrow> error + (payload option \<times> payload option \<times> cursors)" where
  "fill_simulation src obs_id cur =
     (if is_simulation (src_file src) then
        (case mc_shower_reader cur of
           [] \<Rightarrow> Inl StopIteration
         | shower # rest \<Rightarrow>
             (case mc_headers src obs_id of
                None \<Rightarrow> Inl KeyError
              | Some header \<Rightarrow>
                  Inr (Some shower, Some header, cur\<lparr>mc_shower_reader := rest\<rparr>)))
      else Inr (None, None, cur))"

text \<open>
  The body of the event loop after \<^verbatim>\<open>data.trigger, data.index = next(events)\<close> has
  returned the row \<open>row\<close>: everything up to the \<^verbatim>\<open>yield\<close>.
\<close>

definition assemble_event ::
  "dl1_event_source \<Rightarrow> datalevel list \<Rightarrow> string \<Rightarrow> nat \<Rightarrow> trigger_row \<Rightarrow> cursors \<Rightarrow>
   error + (event \<times> cursors)" where
  "assemble_event src lv origin counter row cur =
     (let ttel = fill_trigger_tel src
                   (matching_rows (src_file src) (tr_obs_id row) (tr_event_id row)) []
      in case fill_array_pointing (subarray_pointing (src_file src)) (tr_time row) of
           Inl e \<Rightarrow> Inl e
         | Inr array_pointing \<Rightarrow>
        (case fill_telescope_pointing src ttel [] of
           Inl e \<Rightarrow> Inl e
         | Inr ptel \<Rightarrow>
        (case fill_simulation src (tr_obs_id row) cur of
           Inl e \<Rightarrow> Inl e
         | Inr (shower, header, cur1) \<Rightarrow>
        (case fill_dl1 src lv (map fst ttel) (cur1, []) of
           Inl e \<Rightarrow> Inl e
         | Inr (cur2, d) \<Rightarrow>
             Inr (\<lparr>meta_origin = origin,
                   count = counter,
                   trigger_time = tr_time row,
                   tels_with_trigger = where_plus_one (tr_tels_with_trigger row),
                   trigger_tel = ttel,
                   index_obs_id = tr_obs_id row,
                   index_event_id = tr_event_id row,
                   pointing_array = array_pointing,
                   pointing_tel = ptel,
                   mc = shower,
                   mcheader = header,
                   dl1_tel = d\<rparr>, cur2)))))"

subsection \<open>The generator\<close>

text \<open>
  A run of the generator is the list of the events it yields and how it ends: \<open>None\<close>
  when it returns, \<open>Some e\<close> when it raises \<open>e\<close>.

  The loop is \<^verbatim>\<open>for counter, array_event in enumerate(events)\<close> with
  \<^verbatim>\<open>data.trigger, data.index = next(events)\<close> in its body, and \<^verbatim>\<open>events\<close> is one
  iterator (\<^verbatim>\<open>next\<close> accepts nothing else, and iterating an iterator advances that same
  iterator): the loop header takes a row (\<^verbatim>\<open>array_event\<close>, not used again) and the body
  takes the following row, which is the row the event is assembled from. The header
  ends the loop when no row is left; the body raises when the header took the last one.
\<close>

fun event_loop ::
  "dl1_event_source \<Rightarrow> datalevel list \<Rightarrow> string \<Rightarrow> nat \<Rightarrow> trigger_row list \<Rightarrow> cursors \<Rightarrow>
   event list \<times> error option" where
  "event_loop src lv origin counter [] cur = ([], None)"
| "event_loop src lv origin counter [array_event] cur = ([], Some StopIteration)"
| "event_loop src lv origin counter (array_event # row # events) cur =
     (case assemble_event src lv origin counter row cur of
        Inl e \<Rightarrow> ([], Some e)
      | Inr (data, cur') \<Rightarrow>
          (let (rest, ending) = event_loop src lv origin (Suc counter) events cur'
           in (data # rest, ending)))"

text \<open>
  The set-up before the loop. The true-image iterators are built when the file has
  simulated DL1 data (and never read afterwards); building them reads the group
  \<^verbatim>\<open>simulation/event/telescope/images\<close>. Readers are generators, so building one reads
  nothing.
\<close>

definition init_cursors :: "h5file \<Rightarrow> datalevel list \<Rightarrow> error + cursors" where
  "init_cursors f lv =
     (case (if DL1_IMAGES \<in> set lv then
              (case telescope_images f of
                 None \<Rightarrow> Inl NoSuchNodeError
               | Some images \<Rightarrow>
                   if has_simulated_dl1 f then
                     (case simulation f of
                        None \<Rightarrow> Inl NoSuchNodeError
                      | Some sim \<Rightarrow>
                          (case sim_telescope sim of
                             Some (Some true_images) \<Rightarrow> Inr images
                           | _ \<Rightarrow> Inl NoSuchNodeError))
                   else Inr images)
            else Inr Map.empty) of
        Inl e \<Rightarrow> Inl e
      | Inr image_its \<Rightarrow>
          (case (if DL1_PARAMETERS \<in> set lv then
                   (case telescope_parameters f of
                      None \<Rightarrow> Inl NoSuchNodeError
                    | Some params \<Rightarrow> Inr params)
                 else Inr Map.empty) of
             Inl e \<Rightarrow> Inl e
           | Inr param_rds \<Rightarrow>
               Inr \<lparr>image_iterators = image_its,
                    param_readers = param_rds,
                    mc_shower_reader =
                      (case simulation f of None \<Rightarrow> [] | Some sim \<Rightarrow> sim_shower sim),
                    log = []\<rparr>))"

text \<open>
  \<^verbatim>\<open>_generate_events\<close>: the root attribute \<^verbatim>\<open>CTA PROCESS TYPE\<close> is read first (KeyError
  when it is missing), then \<^verbatim>\<open>DataLevel.DL1_IMAGES in self.datalevels\<close> is evaluated,
  which raises TypeError when \<^verbatim>\<open>datalevels\<close> is \<^verbatim>\<open>None\<close>. The generator copies
  \<^verbatim>\<open>max_events\<close> into the meta data and does not use it; the cap is applied by the base
  class, which is not among the sources, so the runs here are runs without a cap.
\<close>

definition generate_events :: "dl1_event_source \<Rightarrow> event list \<times> error option" where
  "generate_events src =
     (case process_type (src_file src) of
        None \<Rightarrow> ([], Some KeyError)
      | Some origin \<Rightarrow>
          (case datalevels (src_file src) of
             None \<Rightarrow> ([], Some TypeError)
           | Some lv \<Rightarrow>
               (case init_cursors (src_file src) lv of
                  Inl e \<Rightarrow> ([], Some e)
                | Inr cur \<Rightarrow> event_loop src lv origin 0 (subarray_trigger (src_file src)) cur)))"


subsection \<open>Auxiliary notions for the statements\<close>

text \<open>
  The rows that the body of the event loop takes with \<^verbatim>\<open>next(events)\<close>: every second
  row of the trigger table, starting with the second.
\<close>

fun body_rows :: "'a list \<Rightarrow> 'a list" where
  "body_rows (array_event # row # events) = row # body_rows events"
| "body_rows events = []"

definition dl1_keys :: "event \<Rightarrow> nat list" where
  "dl1_keys data = map fst (dl1_tel data)"

definition pointing_keys :: "event \<Rightarrow> nat list" where
  "pointing_keys data = map fst (pointing_tel data)"

definition trigger_keys :: "event \<Rightarrow> nat list" where
  "trigger_keys data = map fst (trigger_tel data)"

definition has_image_table :: "h5file \<Rightarrow> nat \<Rightarrow> bool" where
  "has_image_table f tel =
     (case telescope_images f of None \<Rightarrow> False | Some images \<Rightarrow> images (tel_name tel) \<noteq> None)"

definition has_parameter_table :: "h5file \<Rightarrow> nat \<Rightarrow> bool" where
  "has_parameter_table f tel =
     (case telescope_parameters f of None \<Rightarrow> False | Some params \<Rightarrow> params (tel_name tel) \<noteq> None)"

subsection \<open>Example files\<close>

definition pointing_at :: "real \<Rightarrow> array_pointing_row" where
  "pointing_at t =
     \<lparr>ap_time = t, array_azimuth = t + 1, array_altitude = t + 2,
      array_ra = t + 3, array_dec = t + 4\<rparr>"

definition tel_pointing_at :: "real \<Rightarrow> tel_pointing_row" where
  "tel_pointing_at t = \<lparr>telescopetrigger_time = t, azimuth = t + 1, altitude = t + 2\<rparr>"

definition image_of :: "real \<Rightarrow> image_row" where
  "image_of x = \<lparr>ir_image = [x], ir_peak_time = [x + 1], ir_image_mask = [True]\<rparr>"

definition params_of :: "real \<Rightarrow> param_row" where
  "params_of x =
     \<lparr>pr_hillas = [x], pr_timing = [x], pr_leakage = [x], pr_concentration = [x],
      pr_morphology = [x], pr_intensity_statistics = [x], pr_peak_time_statistics = [x]\<rparr>"

definition trig :: "nat \<Rightarrow> nat \<Rightarrow> real \<Rightarrow> bool list \<Rightarrow> trigger_row" where
  "trig obs ev t bitmap =
     \<lparr>tr_obs_id = obs, tr_event_id = ev, tr_time = t, tr_tels_with_trigger = bitmap\<rparr>"

definition tel_trig :: "nat \<Rightarrow> nat \<Rightarrow> nat \<Rightarrow> real \<Rightarrow> tel_trigger_row" where
  "tel_trig obs ev tel t =
     \<lparr>tt_obs_id = obs, tt_event_id = ev, tt_tel_id = tel, tt_telescopetrigger_time = t\<rparr>"

text \<open>
  A simulation file of one run (obs\_id 7) with two array events in which telescopes 1
  and 2 trigger. Both data levels are present; telescope 2 has a parameter table and no
  image table. The monitoring tables have the time stamps 10, 20 and 30.
\<close>

definition two_event_file :: h5file where
  "two_event_file =
     \<lparr>process_type = Some ''Simulation'',
      simulation = Some \<lparr>sim_shower = [[1], [2]], sim_telescope = None\<rparr>,
      configuration_simulation_run = Some [\<lparr>run_obs_id = 7, run_header = [70]\<rparr>],
      subarray_trigger = [trig 7 1 21 [True, True], trig 7 2 22 [True, True]],
      telescope_trigger =
        [tel_trig 7 1 1 21, tel_trig 7 1 2 21, tel_trig 7 2 1 22, tel_trig 7 2 2 22],
      telescope_images = Some [''tel_001'' \<mapsto> [image_of 1, image_of 2]],
      telescope_parameters =
        Some [''tel_001'' \<mapsto> [params_of 11, params_of 12],
              ''tel_002'' \<mapsto> [params_of 21, params_of 22]],
      subarray_pointing = map pointing_at [10, 20, 30],
      telescope_pointing =
        [''tel_001'' \<mapsto> map tel_pointing_at [10, 20, 30],
         ''tel_002'' \<mapsto> map tel_pointing_at [10, 20, 30]]\<rparr>"

text \<open>The same file with a third array event.\<close>

definition three_event_file :: h5file where
  "three_event_file =
     two_event_file
       \<lparr>subarray_trigger :=
          [trig 7 1 21 [True, True], trig 7 2 22 [True, True], trig 7 3 23 [True, True]]\<rparr>"

text \<open>
  The same file with a bitmap that holds telescope 1 only, while the telescope trigger
  table still has the rows of telescope 2.
\<close>

definition bitmap_subset_file :: h5file where
  "bitmap_subset_file =
     two_event_file
       \<lparr>subarray_trigger := [trig 7 1 21 [True, False], trig 7 2 22 [True, False]]\<rparr>"

text \<open>The same file without the two groups of per-telescope event tables.\<close>

definition no_datalevel_file :: h5file where
  "no_datalevel_file = two_event_file\<lparr>telescope_images := None, telescope_parameters := None\<rparr>"

text \<open>The same file without the pointing table of telescope 2.\<close>

definition no_tel2_pointing_file :: h5file where
  "no_tel2_pointing_file =
     two_event_file
       \<lparr>telescope_pointing := [''tel_001'' \<mapsto> map tel_pointing_at [10, 20, 30]]\<rparr>"

text \<open>The same file whose run table has no row for obs\_id 7.\<close>

definition unbound_obs_file :: h5file where
  "unbound_obs_file =
     two_event_file
       \<lparr>configuration_simulation_run := Some [\<lparr>run_obs_id = 8, run_header = [80]\<rparr>]\<rparr>"

text \<open>
  A file with the HDF5 signature whose root node has the product description and no
  data model version.
\<close>

definition no_version_file :: raw_file where
  "no_version_file =
     \<lparr>file_bytes = [0x89, 0x48, 0x44, 0x46, 0x0D, 0x0A, 0x1A, 0x0A, 0x00, 0x00],
      root_attrs = Some [''CTA PRODUCT DESCRIPTION'' \<mapsto> ''DL1 Data Product'']\<rparr>"

text \<open>
  The one event that the generator yields for \<open>two_event_file\<close> with no allow-list
  (\<open>generate_events_two_event_file\<close> below).
\<close>

definition two_event_file_event :: event where
  "two_event_file_event =
     \<lparr>meta_origin = ''Simulation'', count = 0, trigger_time = 22,
      tels_with_trigger = [1, 2], trigger_tel = [(1, 22), (2, 22)],
      index_obs_id = 7, index_event_id = 2,
      pointing_array = pointing_at 10,
      pointing_tel =
        [(1, \<lparr>tp_azimuth = 11, tp_altitude = 12\<rparr>),
         (2, \<lparr>tp_azimuth = 11, tp_altitude = 12\<rparr>)],
      mc = Some [1], mcheader = Some [70],
      dl1_tel =
        [(1, \<lparr>image = Some [1], peak_time = Some [2], image_mask = Some [True],
              parameters = Some (params_of 11)\<rparr>),
         (2, default_dl1)]\<rparr>"


definition empty_cursors :: cursors where
  "empty_cursors =
     \<lparr>image_iterators = Map.empty, param_readers = Map.empty, mc_shower_reader = [], log = []\<rparr>"

text \<open>The one event that the generator yields for \<open>bitmap_subset_file\<close>.\<close>

definition bitmap_subset_event :: event where
  "bitmap_subset_event = two_event_file_event\<lparr>tels_with_trigger := [1]\<rparr>"

text \<open>
  The one event that the generator yields for \<open>two_event_file\<close> when the allow-list
  holds telescope 1 only.
\<close>

definition restricted_event :: event where
  "restricted_event =
     two_event_file_event
       \<lparr>trigger_tel := [(1, 22)],
        pointing_tel := [(1, \<lparr>tp_azimuth = 11, tp_altitude = 12\<rparr>)],
        dl1_tel := [(1, \<lparr>image = Some [1], peak_time = Some [2], image_mask = Some [True],
                      parameters = Some (params_of 11)\<rparr>)]\<rparr>"

section \<open>Properties\<close>

subsection \<open>Table names of the example files\<close>

lemma tel_name_1: "tel_name 1 = ''tel_001''"
  by (simp add: tel_name_def decimal.simps eval_nat_numeral)

lemma tel_name_2: "tel_name 2 = ''tel_002''"
  by (simp add: tel_name_def decimal.simps eval_nat_numeral)

lemma tel_name_Suc_0: "tel_name (Suc 0) = ''tel_001''"
  using tel_name_1 by simp

subsection \<open>The pointing lookup\<close>

lemma argmin_from_shift:
  "argmin_from (map (\<lambda>x. x - t) xs) i best_i (best - t) = argmin_from xs i best_i best"
  by (induction xs arbitrary: i best_i best) auto

text \<open>
  The trigger time has no influence on the selected index: subtracting it from every
  time stamp keeps their order, and no absolute value is taken.
\<close>

lemma closest_time_is_argmin_of_column: "closest_time col t = np_argmin col"
  by (cases col) (simp_all add: closest_time_def np_argmin_def argmin_from_shift)

text \<open>
  C1. The claim: the pointing functions select the row that minimises
  \<open>|timestamp - triggerTime|\<close>; for the time stamps 10, 20, 30 and the trigger time 21
  that is the row at 20. The code takes the argmin of the signed difference: at this
  input \<open>closest_time\<close> is index 0, \<^verbatim>\<open>_fill_array_pointing\<close> returns the row at time stamp
  10, and \<^verbatim>\<open>_fill_telescope_pointing\<close> stores the azimuth and altitude of the row at 10.
\<close>

theorem pointing_lookup_selects_earliest_row:
  "closest_time [10, 20, 30] 21 = Inr 0
   \<and> fill_array_pointing (map pointing_at [10, 20, 30]) 21 = Inr (pointing_at 10)
   \<and> fill_telescope_pointing (init_source two_event_file {}) [(1, 21)] []
       = Inr [(1, \<lparr>tp_azimuth = azimuth (tel_pointing_at 10),
                    tp_altitude = altitude (tel_pointing_at 10)\<rparr>)]"
  by (simp add: closest_time_def np_argmin_def fill_array_pointing_def not_allowed_def
      init_source_def two_event_file_def tel_name_1 tel_name_Suc_0 pointing_at_def
      tel_pointing_at_def)

subsection \<open>The compatibility probe\<close>

text \<open>When both attributes exist, the probe returns whether both have the expected values.\<close>

lemma is_compatible_both_attributes:
  assumes "take 8 (file_bytes file) = hdf5_signature"
    and "root_attrs file = Some metadata"
    and "metadata ''CTA PRODUCT DESCRIPTION'' = Some description"
    and "metadata ''CTA PRODUCT DATA MODEL VERSION'' = Some version"
  shows "is_compatible file = Inr (description = ''DL1 Data Product'' \<and> version = ''v1.0.0'')"
  using assms by (auto simp: is_compatible_def attr_getitem_def)

text \<open>
  C4. The claim: for a file with the signature, a missing attribute yields false and
  the probe never raises for a merely incompatible file. The code tests for the
  product description with \<^verbatim>\<open>_v_attrnames\<close> and reads the data model version without
  such a test: for a file with the right description and no version attribute the
  probe raises KeyError.
\<close>

theorem is_compatible_missing_version_raises:
  "take 8 (file_bytes no_version_file) = hdf5_signature
   \<and> is_compatible no_version_file = Inl KeyError"
  by (simp add: is_compatible_def no_version_file_def hdf5_signature_def attr_getitem_def)

subsection \<open>The event loop\<close>

text \<open>
  A property of every yielded event follows from a property of each assembled event and
  an invariant of the cursors.
\<close>

lemma event_loop_invariant:
  assumes step: "\<And>counter row cur data cur'. I cur \<Longrightarrow>
      assemble_event src lv origin counter row cur = Inr (data, cur') \<Longrightarrow> P data \<and> I cur'"
    and init: "I cur"
  shows "\<forall>data \<in> set (fst (event_loop src lv origin counter rows cur)). P data"
  using init
proof (induction rows arbitrary: counter cur rule: induct_list012)
  case (3 array_event row events)
  show ?case
  proof (cases "assemble_event src lv origin counter row cur")
    case (Inl e)
    then show ?thesis by simp
  next
    case (Inr p)
    obtain data cur' where p: "p = (data, cur')" by (cases p)
    from step[OF "3.prems"] Inr p have "P data" "I cur'" by auto
    with "3.IH"(1)[of cur' "Suc counter"] Inr p show ?thesis
      by (auto split: prod.splits)
  qed
qed simp_all

lemma event_loop_counts:
  "map count (fst (event_loop src lv origin counter rows cur))
     = [counter ..< counter + length (fst (event_loop src lv origin counter rows cur))]"
proof (induction src lv origin counter rows cur rule: event_loop.induct)
  case (3 src lv origin counter array_event row events cur)
  then show ?case
    by (auto simp: assemble_event_def Let_def upt_rec[of counter] split: sum.splits prod.splits)
qed simp_all

lemma event_loop_length:
  "length (fst (event_loop src lv origin counter rows cur)) \<le> length rows div 2"
  by (induction src lv origin counter rows cur rule: event_loop.induct)
     (auto split: sum.splits prod.splits)

lemma event_loop_rows:
  "map (\<lambda>d. (index_obs_id d, index_event_id d)) (fst (event_loop src lv origin counter rows cur))
     = take (length (fst (event_loop src lv origin counter rows cur)))
         (map (\<lambda>r. (tr_obs_id r, tr_event_id r)) (body_rows rows))"
  by (induction src lv origin counter rows cur rule: event_loop.induct)
     (auto simp: assemble_event_def Let_def split: sum.splits prod.splits)

subsection \<open>The per-telescope maps of one event\<close>

lemma fill_trigger_tel_keys:
  "fst ` set (fill_trigger_tel src rows acc)
     = fst ` set acc \<union> {tel \<in> tt_tel_id ` set rows. \<not> not_allowed src tel}"
  by (induction rows arbitrary: acc) (auto simp: AList.dom_update)

lemma fill_trigger_tel_distinct:
  "distinct (map fst acc) \<Longrightarrow> distinct (map fst (fill_trigger_tel src rows acc))"
  by (induction rows arbitrary: acc) (auto simp: AList.distinct_update)

lemma fill_telescope_pointing_keys:
  "fill_telescope_pointing src ttel ptel = Inr ptel' \<Longrightarrow>
   fst ` set ptel' = fst ` set ptel \<union> {tel \<in> fst ` set ttel. \<not> not_allowed src tel}"
proof (induction src ttel ptel rule: fill_telescope_pointing.induct)
  case (2 src tel time rest ptel)
  then show ?case
    by (auto simp: Let_def AList.dom_update split: if_splits option.splits sum.splits)
qed simp

lemma fill_telescope_pointing_nodes:
  "fill_telescope_pointing src ttel ptel = Inr ptel' \<Longrightarrow> (tel, t) \<in> set ttel \<Longrightarrow>
   \<not> not_allowed src tel \<Longrightarrow> telescope_pointing (src_file src) (tel_name tel) \<noteq> None"
proof (induction src ttel ptel rule: fill_telescope_pointing.induct)
  case (2 src tel' time rest ptel)
  then show ?case
    by (auto simp: Let_def split: if_splits option.splits sum.splits)
qed simp


lemma fill_parameters_cases:
  assumes "fill_parameters lv tel (cur, d) = Inr (cur', d')"
  obtains (no_level) "DL1_PARAMETERS \<notin> set lv" "cur' = cur" "d' = d"
    | (missing) "DL1_PARAMETERS \<in> set lv" "param_readers cur (tel_name tel) = None"
        "cur' = cur\<lparr>log := log cur @ [Missing_from_parameters_table tel]\<rparr>" "d' = d"
    | (row) params rest where "DL1_PARAMETERS \<in> set lv"
        "param_readers cur (tel_name tel) = Some (params # rest)"
        "cur' = cur\<lparr>param_readers := (param_readers cur)(tel_name tel \<mapsto> rest)\<rparr>"
        "d' = AList.map_entry tel (\<lambda>dl1. dl1\<lparr>parameters := Some params\<rparr>) d"
  using assms
  by (auto simp: fill_parameters_def split: if_splits option.splits list.splits)

lemma fill_parameters_Inr:
  assumes "fill_parameters lv tel (cur, d) = Inr (cur', d')"
  shows "(image_iterators cur' n = None) = (image_iterators cur n = None)"
    and "(param_readers cur' n = None) = (param_readers cur n = None)"
    and "fst ` set d' = fst ` set d"
    and "k \<noteq> tel \<Longrightarrow> map_of d' k = map_of d k"
  using assms
  by (cases rule: fill_parameters_cases;
      simp add: AList.dom_map_entry AList.map_of_map_entry)+

lemma map_getitem_keys: "fst ` set (snd (map_getitem dflt m k)) = insert k (fst ` set m)"
  by (auto simp: map_getitem_def map_of_eq_None_iff split: option.splits dest: map_of_SomeD)
    (metis fst_conv image_eqI map_of_SomeD)

lemma map_getitem_other: "k' \<noteq> k \<Longrightarrow> map_of (snd (map_getitem dflt m k)) k' = map_of m k'"
  by (auto simp: map_getitem_def map_add_def split: option.splits)

lemma fill_dl1_tel_Inr:
  assumes "fill_dl1_tel lv tel (cur, d) = Inr (cur', d')"
  shows "(image_iterators cur' n = None) = (image_iterators cur n = None)"
    and "(param_readers cur' n = None) = (param_readers cur n = None)"
    and "fst ` set d' = insert tel (fst ` set d)"
    and "k \<noteq> tel \<Longrightarrow> map_of d' k = map_of d k"
proof -
  obtain dl1 d1 where g: "map_getitem default_dl1 d tel = (dl1, d1)"
    by (cases "map_getitem default_dl1 d tel")
  have k1: "fst ` set d1 = insert tel (fst ` set d)"
    using map_getitem_keys[of default_dl1 d tel] g by simp
  have o1: "\<And>k. k \<noteq> tel \<Longrightarrow> map_of d1 k = map_of d k"
    using map_getitem_other[of _ tel default_dl1 d] g by simp
  consider (skip) "DL1_IMAGES \<in> set lv" "image_iterators cur (tel_name tel) = None"
      "cur' = cur\<lparr>log := log cur @ [Missing_from_image_table tel]\<rparr>" "d' = d1"
    | (img) image_row rest where "DL1_IMAGES \<in> set lv"
      "image_iterators cur (tel_name tel) = Some (image_row # rest)"
      "fill_parameters lv tel
         (cur\<lparr>image_iterators := (image_iterators cur)(tel_name tel \<mapsto> rest)\<rparr>,
          AList.map_entry tel
            (\<lambda>dl1. dl1\<lparr>image := Some (ir_image image_row),
                       peak_time := Some (ir_peak_time image_row),
                       image_mask := Some (ir_image_mask image_row)\<rparr>) d1) = Inr (cur', d')"
    | (noimg) "DL1_IMAGES \<notin> set lv" "fill_parameters lv tel (cur, d1) = Inr (cur', d')"
    using assms g
    by (auto simp: fill_dl1_tel_def split: if_splits option.splits list.splits)
  note c = this
  from c show "(image_iterators cur' n = None) = (image_iterators cur n = None)"
  proof cases
    case img
    from fill_parameters_Inr(1)[OF img(3), of n] img(2) show ?thesis by simp
  qed (simp_all add: fill_parameters_Inr(1))
  from c show "(param_readers cur' n = None) = (param_readers cur n = None)"
  proof cases
    case img
    from fill_parameters_Inr(2)[OF img(3), of n] show ?thesis by simp
  qed (simp_all add: fill_parameters_Inr(2))
  from c show "fst ` set d' = insert tel (fst ` set d)"
  proof cases
    case img
    from fill_parameters_Inr(3)[OF img(3)] show ?thesis by (simp add: k1 AList.dom_map_entry)
  qed (simp_all add: fill_parameters_Inr(3) k1)
  show "map_of d' k = map_of d k" if "k \<noteq> tel"
    using c
  proof cases
    case skip
    then show ?thesis using o1[OF that] by simp
  next
    case img
    from fill_parameters_Inr(4)[OF img(3) that] that o1[OF that] show ?thesis
      by (simp add: AList.map_of_map_entry)
  next
    case noimg
    from fill_parameters_Inr(4)[OF noimg(2) that] o1[OF that] show ?thesis by simp
  qed
qed

lemma fill_dl1_Inr:
  assumes "fill_dl1 src lv tels (cur, d) = Inr (cur', d')"
  shows "(image_iterators cur' n = None) = (image_iterators cur n = None)"
    and "(param_readers cur' n = None) = (param_readers cur n = None)"
    and "fst ` set d' = fst ` set d \<union> {tel \<in> set tels. \<not> not_allowed src tel}"
  using assms
proof (induction tels arbitrary: cur d)
  case (Cons tel tels)
  {
    case 1
    show ?case
    proof (cases "not_allowed src tel")
      case True
      with Cons.IH(1) "1" show ?thesis by simp
    next
      case False
      with "1" obtain cur1 d1 where
        s: "fill_dl1_tel lv tel (cur, d) = Inr (cur1, d1)"
        and r: "fill_dl1 src lv tels (cur1, d1) = Inr (cur', d')"
        by (auto split: sum.splits)
      from Cons.IH(1)[OF r] fill_dl1_tel_Inr(1)[OF s] show ?thesis by simp
    qed
  next
    case 2
    show ?case
    proof (cases "not_allowed src tel")
      case True
      with Cons.IH(2) "2" show ?thesis by simp
    next
      case False
      with "2" obtain cur1 d1 where
        s: "fill_dl1_tel lv tel (cur, d) = Inr (cur1, d1)"
        and r: "fill_dl1 src lv tels (cur1, d1) = Inr (cur', d')"
        by (auto split: sum.splits)
      from Cons.IH(2)[OF r] fill_dl1_tel_Inr(2)[OF s] show ?thesis by simp
    qed
  next
    case 3
    show ?case
    proof (cases "not_allowed src tel")
      case True
      with Cons.IH(3)[of cur d] "3" show ?thesis by auto
    next
      case False
      with "3" obtain cur1 d1 where
        s: "fill_dl1_tel lv tel (cur, d) = Inr (cur1, d1)"
        and r: "fill_dl1 src lv tels (cur1, d1) = Inr (cur', d')"
        by (auto split: sum.splits)
      from Cons.IH(3)[OF r] fill_dl1_tel_Inr(3)[OF s] False show ?thesis by auto
    qed
  }
qed simp_all

lemma fill_dl1_tel_missing_image:
  "DL1_IMAGES \<in> set lv \<Longrightarrow> image_iterators cur (tel_name tel) = None \<Longrightarrow>
   fill_dl1_tel lv tel (cur, d)
     = Inr (cur\<lparr>log := log cur @ [Missing_from_image_table tel]\<rparr>,
            snd (map_getitem default_dl1 d tel))"
  by (simp add: fill_dl1_tel_def split: prod.splits)

lemma map_getitem_same:
  "map_of (snd (map_getitem dflt m k)) k = (case map_of m k of None \<Rightarrow> Some dflt | Some v \<Rightarrow> Some v)"
  by (auto simp: map_getitem_def map_add_def split: option.splits)

lemma fill_dl1_default_entry:
  assumes "fill_dl1 src lv tels (cur, d) = Inr (cur', d')"
    and "DL1_IMAGES \<in> set lv"
    and "image_iterators cur (tel_name tel) = None"
    and "map_of d tel = None \<or> map_of d tel = Some default_dl1"
  shows "map_of d' tel = None \<or> map_of d' tel = Some default_dl1"
  using assms
proof (induction tels arbitrary: cur d)
  case (Cons t tels)
  show ?case
  proof (cases "not_allowed src t")
    case True
    with Cons show ?thesis by simp
  next
    case False
    with Cons.prems(1) obtain cur1 d1 where
      s: "fill_dl1_tel lv t (cur, d) = Inr (cur1, d1)"
      and r: "fill_dl1 src lv tels (cur1, d1) = Inr (cur', d')"
      by (auto split: sum.splits)
    have i: "image_iterators cur1 (tel_name tel) = None"
      using fill_dl1_tel_Inr(1)[OF s, of "tel_name tel"] Cons.prems(3) by simp
    have "map_of d1 tel = None \<or> map_of d1 tel = Some default_dl1"
    proof (cases "t = tel")
      case True
      with s fill_dl1_tel_missing_image[OF Cons.prems(2,3), of d]
      have "d1 = snd (map_getitem default_dl1 d tel)" by simp
      with Cons.prems(4) show ?thesis by (auto simp: map_getitem_same)
    next
      case False
      with fill_dl1_tel_Inr(4)[OF s, of tel] Cons.prems(4) show ?thesis by simp
    qed
    from Cons.IH[OF r Cons.prems(2) i this] show ?thesis .
  qed
qed simp

lemma fill_dl1_tel_cases:
  assumes "fill_dl1_tel lv tel (cur, d) = Inr (cur', d')"
  obtains (missing) "DL1_IMAGES \<in> set lv" "image_iterators cur (tel_name tel) = None"
      "cur' = cur\<lparr>log := log cur @ [Missing_from_image_table tel]\<rparr>"
      "d' = snd (map_getitem default_dl1 d tel)"
    | (row) image_row rest where "DL1_IMAGES \<in> set lv"
      "image_iterators cur (tel_name tel) = Some (image_row # rest)"
      "fill_parameters lv tel
         (cur\<lparr>image_iterators := (image_iterators cur)(tel_name tel \<mapsto> rest)\<rparr>,
          AList.map_entry tel
            (\<lambda>dl1. dl1\<lparr>image := Some (ir_image image_row),
                       peak_time := Some (ir_peak_time image_row),
                       image_mask := Some (ir_image_mask image_row)\<rparr>)
            (snd (map_getitem default_dl1 d tel))) = Inr (cur', d')"
    | (no_level) "DL1_IMAGES \<notin> set lv"
      "fill_parameters lv tel (cur, snd (map_getitem default_dl1 d tel)) = Inr (cur', d')"
  using assms
  by (auto simp: fill_dl1_tel_def split: if_splits option.splits list.splits prod.splits)

lemma fill_dl1_tel_no_parameters:
  assumes s: "fill_dl1_tel lv tel (cur, d) = Inr (cur', d')"
    and p: "param_readers cur (tel_name tel) = None"
    and d: "\<And>c. map_of d tel = Some c \<Longrightarrow> parameters c = None"
    and c': "map_of d' tel = Some c'"
  shows "parameters c' = None"
proof -
  have g: "\<And>c. map_of (snd (map_getitem default_dl1 d tel)) tel = Some c \<Longrightarrow> parameters c = None"
    using d by (auto simp: map_getitem_same default_dl1_def split: option.splits)
  from s show ?thesis
  proof (cases rule: fill_dl1_tel_cases)
    case missing
    with g c' show ?thesis by simp
  next
    case (row image_row rest)
    from row(3) have "d' = AList.map_entry tel
            (\<lambda>dl1. dl1\<lparr>image := Some (ir_image image_row),
                       peak_time := Some (ir_peak_time image_row),
                       image_mask := Some (ir_image_mask image_row)\<rparr>)
            (snd (map_getitem default_dl1 d tel))"
      using p by (cases rule: fill_parameters_cases) simp_all
    with c' g show ?thesis
      by (auto simp: AList.map_of_map_entry split: option.splits)
  next
    case no_level
    from no_level(2) have "d' = snd (map_getitem default_dl1 d tel)"
      using p by (cases rule: fill_parameters_cases) simp_all
    with g c' show ?thesis by simp
  qed
qed

lemma fill_dl1_no_parameters:
  assumes "fill_dl1 src lv tels (cur, d) = Inr (cur', d')"
    and "param_readers cur (tel_name tel) = None"
    and "\<And>c. map_of d tel = Some c \<Longrightarrow> parameters c = None"
    and "map_of d' tel = Some c'"
  shows "parameters c' = None"
  using assms
proof (induction tels arbitrary: cur d)
  case (Cons t tels)
  show ?case
  proof (cases "not_allowed src t")
    case True
    with Cons.prems Cons.IH[of cur d] show ?thesis by simp
  next
    case False
    with Cons.prems(1) obtain cur1 d1 where
      s: "fill_dl1_tel lv t (cur, d) = Inr (cur1, d1)"
      and r: "fill_dl1 src lv tels (cur1, d1) = Inr (cur', d')"
      by (auto split: sum.splits)
    have i: "param_readers cur1 (tel_name tel) = None"
      using fill_dl1_tel_Inr(2)[OF s, of "tel_name tel"] Cons.prems(2) by simp
    have "parameters c = None" if "map_of d1 tel = Some c" for c
    proof (cases "t = tel")
      case True
      with s Cons.prems(2,3) that show ?thesis
        using fill_dl1_tel_no_parameters[of lv tel cur d cur1 d1 c] by simp
    next
      case False
      with fill_dl1_tel_Inr(4)[OF s, of tel] Cons.prems(3) that show ?thesis by simp
    qed
    from Cons.IH[OF r i this Cons.prems(4)] show ?thesis .
  qed
qed simp

lemma assemble_event_Inr:
  assumes "assemble_event src lv origin counter row cur = Inr (data, cur')"
  obtains array_pointing ptel shower header cur1 where
    "fill_array_pointing (subarray_pointing (src_file src)) (tr_time row) = Inr array_pointing"
    "fill_telescope_pointing src (trigger_tel data) [] = Inr ptel"
    "fill_simulation src (tr_obs_id row) cur = Inr (shower, header, cur1)"
    "fill_dl1 src lv (map fst (trigger_tel data)) (cur1, []) = Inr (cur', dl1_tel data)"
    "trigger_tel data = fill_trigger_tel src
        (matching_rows (src_file src) (tr_obs_id row) (tr_event_id row)) []"
    "pointing_tel data = ptel" "mc data = shower" "mcheader data = header"
    "count data = counter" "index_obs_id data = tr_obs_id row"
    "index_event_id data = tr_event_id row"
    "tels_with_trigger data = where_plus_one (tr_tels_with_trigger row)"
    "pointing_array data = array_pointing" "trigger_time data = tr_time row"
  using assms
  by (auto simp: assemble_event_def Let_def split: sum.splits prod.splits)

lemma fill_simulation_Inr:
  assumes "fill_simulation src obs_id cur = Inr (shower, header, cur1)"
  shows "image_iterators cur1 = image_iterators cur"
    and "param_readers cur1 = param_readers cur"
    and "is_simulation (src_file src) \<Longrightarrow> header = mc_headers src obs_id \<and> header \<noteq> None"
    and "\<not> is_simulation (src_file src) \<Longrightarrow> header = None \<and> shower = None"
  using assms
  by (auto simp: fill_simulation_def split: if_splits list.splits option.splits) metis

subsection \<open>One assembled event\<close>

lemma assemble_event_cursors:
  assumes "assemble_event src lv origin counter row cur = Inr (data, cur')"
  shows "(image_iterators cur' n = None) = (image_iterators cur n = None)"
    and "(param_readers cur' n = None) = (param_readers cur n = None)"
proof -
  from assms obtain shower header cur1 where
    s: "fill_simulation src (tr_obs_id row) cur = Inr (shower, header, cur1)" and
    f: "fill_dl1 src lv (map fst (trigger_tel data)) (cur1, []) = Inr (cur', dl1_tel data)"
    by (auto elim!: assemble_event_Inr)
  from fill_dl1_Inr(1)[OF f, of n] fill_simulation_Inr(1)[OF s]
  show "(image_iterators cur' n = None) = (image_iterators cur n = None)" by simp
  from fill_dl1_Inr(2)[OF f, of n] fill_simulation_Inr(2)[OF s]
  show "(param_readers cur' n = None) = (param_readers cur n = None)" by simp
qed

lemma assemble_event_trigger_keys:
  assumes "assemble_event src lv origin counter row cur = Inr (data, cur')"
  shows "set (trigger_keys data)
         = {tel \<in> tt_tel_id ` set (matching_rows (src_file src) (index_obs_id data)
                                     (index_event_id data)). \<not> not_allowed src tel}"
    and "distinct (trigger_keys data)"
proof -
  from assms have t: "trigger_tel data = fill_trigger_tel src
        (matching_rows (src_file src) (tr_obs_id row) (tr_event_id row)) []"
    and o: "index_obs_id data = tr_obs_id row" "index_event_id data = tr_event_id row"
    by (auto elim!: assemble_event_Inr)
  show "set (trigger_keys data)
         = {tel \<in> tt_tel_id ` set (matching_rows (src_file src) (index_obs_id data)
                                     (index_event_id data)). \<not> not_allowed src tel}"
    by (simp add: trigger_keys_def t o fill_trigger_tel_keys)
  show "distinct (trigger_keys data)"
    by (simp add: trigger_keys_def t fill_trigger_tel_distinct)
qed

lemma assemble_event_allowed:
  assumes "assemble_event src lv origin counter row cur = Inr (data, cur')"
    and "tel \<in> set (trigger_keys data)"
  shows "\<not> not_allowed src tel"
  using assemble_event_trigger_keys(1)[OF assms(1)] assms(2) by simp

lemma assemble_event_dl1_keys:
  assumes "assemble_event src lv origin counter row cur = Inr (data, cur')"
  shows "set (dl1_keys data) = set (trigger_keys data)"
proof -
  from assms obtain cur1 where
    "fill_dl1 src lv (map fst (trigger_tel data)) (cur1, []) = Inr (cur', dl1_tel data)"
    by (auto elim!: assemble_event_Inr)
  from fill_dl1_Inr(3)[OF this] assemble_event_allowed[OF assms]
  show ?thesis by (auto simp: dl1_keys_def trigger_keys_def)
qed

lemma assemble_event_pointing_keys:
  assumes "assemble_event src lv origin counter row cur = Inr (data, cur')"
  shows "set (pointing_keys data) = set (trigger_keys data)"
proof -
  from assms have "fill_telescope_pointing src (trigger_tel data) [] = Inr (pointing_tel data)"
    by (auto elim!: assemble_event_Inr)
  from fill_telescope_pointing_keys[OF this] assemble_event_allowed[OF assms]
  show ?thesis by (auto simp: pointing_keys_def trigger_keys_def)
qed

lemma assemble_event_pointing_nodes:
  assumes "assemble_event src lv origin counter row cur = Inr (data, cur')"
    and "tel \<in> set (trigger_keys data)"
  shows "telescope_pointing (src_file src) (tel_name tel) \<noteq> None"
proof -
  from assms(1) have p: "fill_telescope_pointing src (trigger_tel data) [] = Inr (pointing_tel data)"
    by (auto elim!: assemble_event_Inr)
  from assms(2) obtain t where "(tel, t) \<in> set (trigger_tel data)"
    by (auto simp: trigger_keys_def)
  from fill_telescope_pointing_nodes[OF p this assemble_event_allowed[OF assms]]
  show ?thesis .
qed

lemma assemble_event_default_entry:
  assumes a: "assemble_event src lv origin counter row cur = Inr (data, cur')"
    and "DL1_IMAGES \<in> set lv" and "image_iterators cur (tel_name tel) = None"
    and k: "tel \<in> set (trigger_keys data)"
  shows "map_of (dl1_tel data) tel = Some default_dl1"
proof -
  from a obtain shower header cur1 where
    s: "fill_simulation src (tr_obs_id row) cur = Inr (shower, header, cur1)" and
    f: "fill_dl1 src lv (map fst (trigger_tel data)) (cur1, []) = Inr (cur', dl1_tel data)"
    by (auto elim!: assemble_event_Inr)
  from fill_simulation_Inr(1)[OF s] assms(3)
  have "image_iterators cur1 (tel_name tel) = None" by simp
  from fill_dl1_default_entry[OF f assms(2) this]
  have "map_of (dl1_tel data) tel = None \<or> map_of (dl1_tel data) tel = Some default_dl1"
    by simp
  moreover from k assemble_event_dl1_keys[OF a] have "tel \<in> fst ` set (dl1_tel data)"
    by (simp add: dl1_keys_def)
  ultimately show ?thesis by (auto simp: map_of_eq_None_iff)
qed

lemma assemble_event_no_parameters:
  assumes a: "assemble_event src lv origin counter row cur = Inr (data, cur')"
    and "param_readers cur (tel_name tel) = None"
    and "map_of (dl1_tel data) tel = Some c"
  shows "parameters c = None"
proof -
  from a obtain shower header cur1 where
    s: "fill_simulation src (tr_obs_id row) cur = Inr (shower, header, cur1)" and
    f: "fill_dl1 src lv (map fst (trigger_tel data)) (cur1, []) = Inr (cur', dl1_tel data)"
    by (auto elim!: assemble_event_Inr)
  from fill_simulation_Inr(2)[OF s] assms(2)
  have "param_readers cur1 (tel_name tel) = None" by simp
  from fill_dl1_no_parameters[OF f this _ assms(3)] show ?thesis by simp
qed


lemma generate_events_cases:
  assumes "data \<in> set (fst (generate_events src))"
  obtains origin lv cur where "process_type (src_file src) = Some origin"
    "datalevels (src_file src) = Some lv" "init_cursors (src_file src) lv = Inr cur"
    "data \<in> set (fst (event_loop src lv origin 0 (subarray_trigger (src_file src)) cur))"
  using assms
  by (auto simp: generate_events_def split: option.splits sum.splits)

lemma init_cursors_images:
  assumes "datalevels f = Some lv" "init_cursors f lv = Inr cur" "telescope_images f = Some images"
  shows "DL1_IMAGES \<in> set lv" "image_iterators cur = images"
  using assms
  by (auto simp: datalevels_def init_cursors_def Let_def split: if_splits option.splits sum.splits)

lemma init_cursors_parameters:
  assumes "datalevels f = Some lv" "init_cursors f lv = Inr cur"
    "telescope_parameters f = Some params"
  shows "DL1_PARAMETERS \<in> set lv" "param_readers cur = params"
  using assms
  by (auto simp: datalevels_def init_cursors_def Let_def split: if_splits option.splits sum.splits)

subsection \<open>The generator on the example files\<close>

lemmas example_defs =
  generate_events_def init_source_def two_event_file_def datalevels_def init_cursors_def
  has_simulated_dl1_def is_simulation_def parse_mc_headers_def assemble_event_def
  matching_rows_def not_allowed_def fill_array_pointing_def closest_time_def np_argmin_def
  fill_simulation_def fill_dl1_tel_def fill_parameters_def map_getitem_def default_dl1_def
  where_plus_one_def trig_def tel_trig_def pointing_at_def tel_pointing_at_def image_of_def
  params_of_def tel_name_1 tel_name_2 tel_name_Suc_0

lemma generate_events_two_event_file:
  "generate_events (init_source two_event_file {}) = ([two_event_file_event], None)"
  by (simp add: example_defs two_event_file_event_def)

lemma generate_events_three_event_file:
  "generate_events (init_source three_event_file {}) = ([two_event_file_event], Some StopIteration)"
  by (simp add: example_defs three_event_file_def two_event_file_event_def)

lemma generate_events_bitmap_subset_file:
  "generate_events (init_source bitmap_subset_file {}) = ([bitmap_subset_event], None)"
  by (simp add: example_defs bitmap_subset_file_def bitmap_subset_event_def
      two_event_file_event_def)

lemma generate_events_restricted:
  "generate_events (init_source two_event_file {1})
     = ([two_event_file_event
           \<lparr>trigger_tel := [(1, 22)],
            pointing_tel := [(1, \<lparr>tp_azimuth = 11, tp_altitude = 12\<rparr>)],
            dl1_tel := [(1, \<lparr>image = Some [1], peak_time = Some [2], image_mask = Some [True],
              parameters = Some (params_of 11)\<rparr>)]\<rparr>], None)"
  by (simp add: example_defs two_event_file_event_def)

lemma generate_events_no_datalevel_file:
  "generate_events (init_source no_datalevel_file {}) = ([], Some TypeError)"
  by (simp add: example_defs no_datalevel_file_def)

lemma generate_events_no_tel2_pointing_file:
  "generate_events (init_source no_tel2_pointing_file {}) = ([], Some NoSuchNodeError)"
  by (simp add: example_defs no_tel2_pointing_file_def)

lemma generate_events_unbound_obs_file:
  "generate_events (init_source unbound_obs_file {}) = ([], Some KeyError)"
  by (simp add: example_defs unbound_obs_file_def)

text \<open>The events come from the rows that the loop body takes, in order.\<close>

lemma generate_events_rows:
  "map (\<lambda>d. (index_obs_id d, index_event_id d)) (fst (generate_events src))
     = take (length (fst (generate_events src)))
         (map (\<lambda>r. (tr_obs_id r, tr_event_id r)) (body_rows (subarray_trigger (src_file src))))"
  by (simp add: generate_events_def event_loop_rows split: option.splits sum.splits)

text \<open>
  The part of C3 that holds: the events are numbered 0, 1, 2, ... without gaps. Their
  number is at most half the length of the source.
\<close>

lemma generate_events_counts:
  "map count (fst (generate_events src)) = [0 ..< length (fst (generate_events src))]"
  using event_loop_counts[of src _ _ 0]
  by (simp add: generate_events_def split: option.splits sum.splits)

lemma generate_events_length:
  "length (fst (generate_events src)) \<le> len (src_file src) div 2"
  by (simp add: generate_events_def len_def event_loop_length split: option.splits sum.splits)

text \<open>
  C2. The claim: every cursor advances exactly once per yielded event, and no row of the
  trigger table is consumed without being assembled into an event. In the code the loop
  header \<^verbatim>\<open>enumerate(events)\<close> and the body's \<^verbatim>\<open>next(events)\<close> both advance the trigger
  reader: for the file with the trigger rows of the events 1 and 2 the generator yields
  one event, the one of event\_id 2; the row of event 1 is consumed and dropped. The
  shower reader advances once, so that event carries the first shower row.
\<close>

theorem trigger_reader_advances_twice_per_event:
  "map tr_event_id (subarray_trigger two_event_file) = [1, 2]
   \<and> map index_event_id (fst (generate_events (init_source two_event_file {}))) = [2]
   \<and> snd (generate_events (init_source two_event_file {})) = None
   \<and> simulation two_event_file = Some \<lparr>sim_shower = [[1], [2]], sim_telescope = None\<rparr>
   \<and> map mc (fst (generate_events (init_source two_event_file {}))) = [Some [1]]"
  by (simp add: generate_events_two_event_file two_event_file_event_def)
     (simp add: two_event_file_def trig_def)

text \<open>
  C3. The claim: the events carry the sequence indices 0, 1, 2, ... and, with no cap,
  their number equals the length of the source. The indices are as claimed; the number
  is not: a file of length 2 yields one event, and a file of length 3 yields one event
  and then raises, because the loop body asks the exhausted trigger reader for a row.
\<close>

theorem yielded_events_fewer_than_length:
  "len two_event_file = 2
   \<and> map count (fst (generate_events (init_source two_event_file {}))) = [0]
   \<and> snd (generate_events (init_source two_event_file {})) = None
   \<and> len three_event_file = 3
   \<and> map count (fst (generate_events (init_source three_event_file {}))) = [0]
   \<and> snd (generate_events (init_source three_event_file {})) = Some StopIteration"
  by (simp add: generate_events_two_event_file generate_events_three_event_file
      two_event_file_event_def)
     (simp add: len_def three_event_file_def two_event_file_def)

text \<open>
  C9. With neither the images nor the parameters group, \<^verbatim>\<open>datalevels\<close> is \<^verbatim>\<open>None\<close> and
  the generator yields no event: it raises TypeError at the first membership test
  (when the root attribute \<^verbatim>\<open>CTA PROCESS TYPE\<close>, which is read before, exists; KeyError
  otherwise).
\<close>

theorem no_datalevel_raises_type_error:
  assumes "telescope_images (src_file src) = None"
    and "telescope_parameters (src_file src) = None"
  shows "datalevels (src_file src) = None
       \<and> fst (generate_events src) = []
       \<and> (process_type (src_file src) \<noteq> None \<longrightarrow> generate_events src = ([], Some TypeError))
       \<and> (process_type (src_file src) = None \<longrightarrow> generate_events src = ([], Some KeyError))"
  using assms by (auto simp: datalevels_def generate_events_def split: option.splits)

theorem no_datalevel_raises_type_error_witness:
  "telescope_images (src_file (init_source no_datalevel_file {})) = None
   \<and> telescope_parameters (src_file (init_source no_datalevel_file {})) = None
   \<and> process_type (src_file (init_source no_datalevel_file {})) \<noteq> None
   \<and> datalevels (src_file (init_source no_datalevel_file {})) = None
   \<and> generate_events (init_source no_datalevel_file {}) = ([], Some TypeError)"
proof -
  have h1: "telescope_images (src_file (init_source no_datalevel_file {})) = None"
    and h2: "telescope_parameters (src_file (init_source no_datalevel_file {})) = None"
    and h3: "process_type (src_file (init_source no_datalevel_file {})) \<noteq> None"
    by (simp_all add: init_source_def no_datalevel_file_def two_event_file_def)
  from no_datalevel_raises_type_error[OF h1 h2] h1 h2 h3 show ?thesis by simp
qed

subsection \<open>Telescopes without a table\<close>

lemma where_plus_one_iff:
  "tel \<in> set (where_plus_one bitmap) \<longleftrightarrow> 0 < tel \<and> tel \<le> length bitmap \<and> bitmap ! (tel - 1)"
proof
  assume "tel \<in> set (where_plus_one bitmap)"
  then obtain i where "i < length bitmap" "bitmap ! i" "tel = Suc i"
    by (auto simp: where_plus_one_def)
  then show "0 < tel \<and> tel \<le> length bitmap \<and> bitmap ! (tel - 1)" by simp
next
  assume a: "0 < tel \<and> tel \<le> length bitmap \<and> bitmap ! (tel - 1)"
  then have "tel - 1 < length bitmap" "bitmap ! (tel - 1)" "tel = Suc (tel - 1)" by auto
  then show "tel \<in> set (where_plus_one bitmap)"
    unfolding where_plus_one_def by (metis (mono_tags, lifting) atLeast0LessThan image_eqI lessThan_iff mem_Collect_eq set_filter set_map set_upt)
qed

text \<open>
  In every yielded event each telescope with a recorded trigger time has an entry in the
  DL1 map, whether or not the tables have a row for it.
\<close>

lemma generate_events_dl1_entries:
  assumes "data \<in> set (fst (generate_events src))"
    and "tel \<in> set (trigger_keys data)"
  shows "tel \<in> set (dl1_keys data)
       \<and> (telescope_images (src_file src) \<noteq> None \<and> \<not> has_image_table (src_file src) tel
            \<longrightarrow> map_of (dl1_tel data) tel = Some default_dl1)
       \<and> (telescope_parameters (src_file src) \<noteq> None \<and> \<not> has_parameter_table (src_file src) tel
            \<longrightarrow> (\<exists>dl1. map_of (dl1_tel data) tel = Some dl1 \<and> parameters dl1 = None))"
proof -
  from assms(1) obtain origin lv cur0 where
    lv: "datalevels (src_file src) = Some lv" and
    init: "init_cursors (src_file src) lv = Inr cur0" and
    loop: "data \<in> set (fst (event_loop src lv origin 0 (subarray_trigger (src_file src)) cur0))"
    by (rule generate_events_cases)
  let ?I = "\<lambda>cur. (image_iterators cur (tel_name tel) = None)
                  = (image_iterators cur0 (tel_name tel) = None)
              \<and> (param_readers cur (tel_name tel) = None)
                  = (param_readers cur0 (tel_name tel) = None)"
  let ?P = "\<lambda>data. tel \<in> set (trigger_keys data) \<longrightarrow>
       tel \<in> set (dl1_keys data)
       \<and> (DL1_IMAGES \<in> set lv \<and> image_iterators cur0 (tel_name tel) = None
            \<longrightarrow> map_of (dl1_tel data) tel = Some default_dl1)
       \<and> (param_readers cur0 (tel_name tel) = None
            \<longrightarrow> (\<exists>dl1. map_of (dl1_tel data) tel = Some dl1 \<and> parameters dl1 = None))"
  have step: "?P data \<and> ?I cur'"
    if "?I cur" and a: "assemble_event src lv origin counter row cur = Inr (data, cur')"
    for counter row cur data cur'
  proof -
    have "?I cur'"
      using that(1) assemble_event_cursors[OF a, of "tel_name tel"] by simp
    moreover have "?P data"
    proof (intro impI conjI)
      assume k: "tel \<in> set (trigger_keys data)"
      then show in_dl1: "tel \<in> set (dl1_keys data)"
        using assemble_event_dl1_keys[OF a] by simp
      show "map_of (dl1_tel data) tel = Some default_dl1"
        if "DL1_IMAGES \<in> set lv \<and> image_iterators cur0 (tel_name tel) = None"
        using assemble_event_default_entry[OF a _ _ k] that \<open>?I cur\<close> by simp
      show "\<exists>dl1. map_of (dl1_tel data) tel = Some dl1 \<and> parameters dl1 = None"
        if "param_readers cur0 (tel_name tel) = None"
      proof -
        from in_dl1 have "map_of (dl1_tel data) tel \<noteq> None"
          by (simp add: dl1_keys_def map_of_eq_None_iff)
        then obtain dl1 where m: "map_of (dl1_tel data) tel = Some dl1"
          by blast
        from assemble_event_no_parameters[OF a _ m] that \<open>?I cur\<close> m show ?thesis by simp
      qed
    qed
    ultimately show ?thesis by simp
  qed
  have "\<forall>data \<in> set (fst (event_loop src lv origin 0 (subarray_trigger (src_file src)) cur0)).
          ?P data"
  proof (rule event_loop_invariant[where I = ?I])
    show "?I cur0" by simp
  qed (rule step)
  with loop assms(2) have P: "?P data" by blast
  show ?thesis
  proof (intro conjI impI)
    from P assms(2) show "tel \<in> set (dl1_keys data)" by simp
    show "map_of (dl1_tel data) tel = Some default_dl1"
      if h: "telescope_images (src_file src) \<noteq> None \<and> \<not> has_image_table (src_file src) tel"
    proof -
      from h obtain images where i: "telescope_images (src_file src) = Some images"
        "images (tel_name tel) = None"
        by (auto simp: has_image_table_def)
      from init_cursors_images[OF lv init i(1)] i(2) P assms(2) show ?thesis by simp
    qed
    show "\<exists>dl1. map_of (dl1_tel data) tel = Some dl1 \<and> parameters dl1 = None"
      if h: "telescope_parameters (src_file src) \<noteq> None
             \<and> \<not> has_parameter_table (src_file src) tel"
    proof -
      from h obtain params where i: "telescope_parameters (src_file src) = Some params"
        "params (tel_name tel) = None"
        by (auto simp: has_parameter_table_def)
      from init_cursors_parameters[OF lv init i(1)] i(2) P assms(2) show ?thesis by simp
    qed
  qed
qed








text \<open>
  C6. The claim: with both data levels present, a triggered telescope missing from the
  image table is omitted from the image data only, and its parameters are still read
  and attached. In the code the \<^verbatim>\<open>continue\<close> of the image branch ends the loop body for
  that telescope. What holds: the telescope is skipped altogether for that event: its
  parameter reader is not advanced and its entry in the DL1 map is the default
  container, without parameters.
\<close>

theorem missing_image_table_skips_parameters:
  "(DL1_IMAGES \<in> set lv \<and> DL1_PARAMETERS \<in> set lv
      \<and> image_iterators cur (tel_name tel) = None
      \<and> param_readers cur (tel_name tel) = Some rows \<longrightarrow>
      fill_dl1_tel lv tel (cur, d)
        = Inr (cur\<lparr>log := log cur @ [Missing_from_image_table tel]\<rparr>,
               snd (map_getitem default_dl1 d tel))
      \<and> param_readers (cur\<lparr>log := log cur @ [Missing_from_image_table tel]\<rparr>) (tel_name tel)
          = Some rows
      \<and> (map_of d tel = None \<longrightarrow>
            map_of (snd (map_getitem default_dl1 d tel)) tel = Some default_dl1))
   \<and> (data \<in> set (fst (generate_events src)) \<and> tel \<in> set (trigger_keys data)
        \<and> telescope_images (src_file src) \<noteq> None \<and> \<not> has_image_table (src_file src) tel
        \<and> has_parameter_table (src_file src) tel \<longrightarrow>
        map_of (dl1_tel data) tel = Some default_dl1)
   \<and> parameters default_dl1 = None"
  using generate_events_dl1_entries[of data src tel]
  by (simp add: fill_dl1_tel_missing_image map_getitem_same default_dl1_def)

theorem parameters_not_attached_without_image_table:
  "datalevels two_event_file = Some [DL1_IMAGES, DL1_PARAMETERS]
   \<and> \<not> has_image_table two_event_file 2
   \<and> has_parameter_table two_event_file 2
   \<and> fst (generate_events (init_source two_event_file {})) = [two_event_file_event]
   \<and> 2 \<in> set (trigger_keys two_event_file_event)
   \<and> map_of (dl1_tel two_event_file_event) 2 = Some default_dl1
   \<and> parameters default_dl1 = None"
  by (simp add: generate_events_two_event_file)
     (simp add: two_event_file_event_def trigger_keys_def two_event_file_def datalevels_def
        has_image_table_def has_parameter_table_def tel_name_2 default_dl1_def)

theorem missing_image_table_skips_parameters_witness:
  "DL1_IMAGES \<in> set [DL1_IMAGES, DL1_PARAMETERS]
   \<and> DL1_PARAMETERS \<in> set [DL1_IMAGES, DL1_PARAMETERS]
   \<and> image_iterators (empty_cursors\<lparr>param_readers := [tel_name 2 \<mapsto> [params_of 21]]\<rparr>)
        (tel_name 2) = None
   \<and> param_readers (empty_cursors\<lparr>param_readers := [tel_name 2 \<mapsto> [params_of 21]]\<rparr>)
        (tel_name 2) = Some [params_of 21]
   \<and> map_of ([] :: (nat \<times> dl1_camera_container) list) 2 = None
   \<and> two_event_file_event \<in> set (fst (generate_events (init_source two_event_file {})))
   \<and> 2 \<in> set (trigger_keys two_event_file_event)
   \<and> telescope_images (src_file (init_source two_event_file {})) \<noteq> None
   \<and> \<not> has_image_table (src_file (init_source two_event_file {})) 2
   \<and> has_parameter_table (src_file (init_source two_event_file {})) 2
   \<and> fill_dl1_tel [DL1_IMAGES, DL1_PARAMETERS] 2
        (empty_cursors\<lparr>param_readers := [tel_name 2 \<mapsto> [params_of 21]]\<rparr>, [])
       = Inr (empty_cursors\<lparr>param_readers := [tel_name 2 \<mapsto> [params_of 21]],
                             log := [Missing_from_image_table 2]\<rparr>,
              [(2, default_dl1)])
   \<and> map_of (dl1_tel two_event_file_event) 2 = Some default_dl1"
proof -
  have e: "two_event_file_event \<in> set (fst (generate_events (init_source two_event_file {})))"
    by (simp add: generate_events_two_event_file)
  have k: "2 \<in> set (trigger_keys two_event_file_event)"
    by (simp add: trigger_keys_def two_event_file_event_def)
  have f: "telescope_images (src_file (init_source two_event_file {})) \<noteq> None"
    "\<not> has_image_table (src_file (init_source two_event_file {})) 2"
    "has_parameter_table (src_file (init_source two_event_file {})) 2"
    by (simp_all add: init_source_def two_event_file_def has_image_table_def
        has_parameter_table_def tel_name_2)
  have c: "image_iterators (empty_cursors\<lparr>param_readers := [tel_name 2 \<mapsto> [params_of 21]]\<rparr>)
        (tel_name 2) = None"
    "param_readers (empty_cursors\<lparr>param_readers := [tel_name 2 \<mapsto> [params_of 21]]\<rparr>)
        (tel_name 2) = Some [params_of 21]"
    "log (empty_cursors\<lparr>param_readers := [tel_name 2 \<mapsto> [params_of 21]]\<rparr>) = []"
    by (simp_all add: empty_cursors_def)
  from missing_image_table_skips_parameters
    [of "[DL1_IMAGES, DL1_PARAMETERS]"
        "empty_cursors\<lparr>param_readers := [tel_name 2 \<mapsto> [params_of 21]]\<rparr>" 2
        "[params_of 21]" "[]" two_event_file_event "init_source two_event_file {}"]
    e k f c
  show ?thesis
    by (simp add: map_getitem_def)
qed

subsection \<open>The run-header registry and the join\<close>









subsection \<open>The keys of the per-telescope maps\<close>

lemma generate_events_keys:
  assumes "data \<in> set (fst (generate_events src))"
  shows "set (dl1_keys data) = set (trigger_keys data)"
    and "set (pointing_keys data) = set (trigger_keys data)"
    and "set (trigger_keys data)
         = {tel \<in> tt_tel_id ` set (matching_rows (src_file src) (index_obs_id data)
                                     (index_event_id data)). \<not> not_allowed src tel}"
    and "distinct (trigger_keys data)"
    and "tel \<in> set (trigger_keys data) \<Longrightarrow>
         telescope_pointing (src_file src) (tel_name tel) \<noteq> None"
proof -
  from assms(1) obtain origin lv cur0 where
    loop: "data \<in> set (fst (event_loop src lv origin 0 (subarray_trigger (src_file src)) cur0))"
    by (rule generate_events_cases)
  let ?P = "\<lambda>data. set (dl1_keys data) = set (trigger_keys data)
    \<and> set (pointing_keys data) = set (trigger_keys data)
    \<and> set (trigger_keys data)
         = {tel \<in> tt_tel_id ` set (matching_rows (src_file src) (index_obs_id data)
                                     (index_event_id data)). \<not> not_allowed src tel}
    \<and> distinct (trigger_keys data)
    \<and> (\<forall>tel. tel \<in> set (trigger_keys data) \<longrightarrow>
         telescope_pointing (src_file src) (tel_name tel) \<noteq> None)"
  have "\<forall>data \<in> set (fst (event_loop src lv origin 0 (subarray_trigger (src_file src)) cur0)).
          ?P data"
  proof (rule event_loop_invariant[where I = "\<lambda>_. True"])
    fix counter row cur data cur'
    assume a: "assemble_event src lv origin counter row cur = Inr (data, cur')"
    from assemble_event_dl1_keys[OF a] assemble_event_pointing_keys[OF a]
      assemble_event_trigger_keys[OF a] assemble_event_pointing_nodes[OF a]
    show "?P data \<and> True" by blast
  qed simp
  with loop have P: "?P data" by blast
  from P show "set (dl1_keys data) = set (trigger_keys data)" by blast
  from P show "set (pointing_keys data) = set (trigger_keys data)" by blast
  from P show "set (trigger_keys data)
         = {tel \<in> tt_tel_id ` set (matching_rows (src_file src) (index_obs_id data)
                                     (index_event_id data)). \<not> not_allowed src tel}" by blast
  from P show "distinct (trigger_keys data)" by blast
  from P show "tel \<in> set (trigger_keys data) \<Longrightarrow>
         telescope_pointing (src_file src) (tel_name tel) \<noteq> None" by blast
qed

text \<open>
  C8. The claim: every telescope id in the DL1 map is in the event's set of triggered
  telescopes, and with an allow-list the keys of the DL1, pointing and trigger-time maps
  are in the allow-list. The code takes the telescopes of an event from the rows of the
  telescope trigger table that match the event's obs\_id and event\_id and never from
  the bitmap, so the first part fails for a file whose table names a telescope that the
  bitmap does not. What holds: the three maps have the same keys, each of them the
  tel\_id of a matching row of the telescope trigger table; with a non-empty allow-list
  they all lie in the allow-list; and they lie in the set of triggered telescopes
  whenever the matching rows only name telescopes of the bitmap.
\<close>

theorem per_telescope_keys_closed:
  assumes "data \<in> set (fst (generate_events src))"
  shows "set (dl1_keys data) = set (trigger_keys data)
       \<and> set (pointing_keys data) = set (trigger_keys data)
       \<and> set (trigger_keys data)
           \<subseteq> tt_tel_id ` set (matching_rows (src_file src) (index_obs_id data)
                                  (index_event_id data))
       \<and> (allowed_tels src \<noteq> {} \<longrightarrow>
            set (dl1_keys data) \<subseteq> allowed_tels src
            \<and> set (pointing_keys data) \<subseteq> allowed_tels src
            \<and> set (trigger_keys data) \<subseteq> allowed_tels src)
       \<and> (tt_tel_id ` set (matching_rows (src_file src) (index_obs_id data)
                             (index_event_id data)) \<subseteq> set (tels_with_trigger data) \<longrightarrow>
            set (dl1_keys data) \<subseteq> set (tels_with_trigger data))"
  using generate_events_keys(1-3)[OF assms]
  by (auto simp: not_allowed_def)

theorem dl1_telescope_outside_bitmap:
  "map tr_tels_with_trigger (subarray_trigger bitmap_subset_file)
     = [[True, False], [True, False]]
   \<and> map tt_tel_id (matching_rows bitmap_subset_file 7 2) = [1, 2]
   \<and> generate_events (init_source bitmap_subset_file {}) = ([bitmap_subset_event], None)
   \<and> tels_with_trigger bitmap_subset_event = [1]
   \<and> dl1_keys bitmap_subset_event = [1, 2]
   \<and> 2 \<in> set (dl1_keys bitmap_subset_event)
   \<and> 2 \<notin> set (tels_with_trigger bitmap_subset_event)"
  by (simp add: generate_events_bitmap_subset_file)
     (simp add: bitmap_subset_event_def two_event_file_event_def dl1_keys_def
        bitmap_subset_file_def two_event_file_def matching_rows_def trig_def tel_trig_def)

theorem per_telescope_keys_closed_witness:
  "restricted_event \<in> set (fst (generate_events (init_source two_event_file {1})))
   \<and> allowed_tels (init_source two_event_file {1}) \<noteq> {}
   \<and> tt_tel_id ` set (matching_rows (src_file (init_source two_event_file {1}))
                         (index_obs_id restricted_event) (index_event_id restricted_event))
        \<subseteq> set (tels_with_trigger restricted_event)
   \<and> set (dl1_keys restricted_event) = set (trigger_keys restricted_event)
   \<and> set (pointing_keys restricted_event) = set (trigger_keys restricted_event)
   \<and> set (dl1_keys restricted_event) \<subseteq> allowed_tels (init_source two_event_file {1})
   \<and> set (pointing_keys restricted_event) \<subseteq> allowed_tels (init_source two_event_file {1})
   \<and> set (trigger_keys restricted_event) \<subseteq> allowed_tels (init_source two_event_file {1})
   \<and> set (dl1_keys restricted_event) \<subseteq> set (tels_with_trigger restricted_event)"
proof -
  have "generate_events (init_source two_event_file {1}) = ([restricted_event], None)"
    unfolding restricted_event_def by (rule generate_events_restricted)
  then have e: "restricted_event \<in> set (fst (generate_events (init_source two_event_file {1})))"
    by (simp only: fst_conv list.set insert_iff simp_thms)
  have a: "allowed_tels (init_source two_event_file {1}) \<noteq> {}"
    by (simp add: init_source_def)
  have m: "tt_tel_id ` set (matching_rows (src_file (init_source two_event_file {1}))
                         (index_obs_id restricted_event) (index_event_id restricted_event))
        \<subseteq> set (tels_with_trigger restricted_event)"
    by (simp add: init_source_def matching_rows_def two_event_file_def tel_trig_def
        restricted_event_def two_event_file_event_def)
  note t = per_telescope_keys_closed[OF e]
  from t have 1: "set (dl1_keys restricted_event) = set (trigger_keys restricted_event)"
    by (rule conjunct1)
  note 2 = t[THEN conjunct2, THEN conjunct1]
  note c = t[THEN conjunct2, THEN conjunct2, THEN conjunct2, THEN conjunct1, THEN mp, OF a]
  note 3 = c[THEN conjunct1] c[THEN conjunct2, THEN conjunct1] c[THEN conjunct2, THEN conjunct2]
  from t[THEN conjunct2, THEN conjunct2, THEN conjunct2, THEN conjunct2, THEN mp, OF m]
  have 4: "set (dl1_keys restricted_event) \<subseteq> set (tels_with_trigger restricted_event)" .
  show ?thesis
    by (intro conjI) (fact e a m 1 2 3 4)+
qed

subsection \<open>Telescopes without a pointing table\<close>





end
